theory Spec2Isabelle
  imports Main
begin

section \<open>Python values, exceptions and the provider's state\<close>

text \<open>
  The handler works on JSON-like request data. A value is \<open>None\<close>, a boolean, an
  integer, a string, a list, or a dict with string keys; a dict is kept as an
  association list in insertion order, which is the order Python iterates it in.
\<close>

datatype pyval =
    PNone
  | PBool bool
  | PInt int
  | PStr string
  | PList "pyval list"
  | PDict "(string \<times> pyval) list"

type_synonym pydict = "(string \<times> pyval) list"

text \<open>
  The exceptions the code can meet. \<open>ClientError str code message\<close> is botocore's
  \<open>ClientError\<close>: \<open>str\<close> is what \<open>f'{error}'\<close> renders, \<open>code\<close> is
  \<open>error.response['Error']['Code']\<close>, where the service names the kind of error, and
  \<open>message\<close> is
  \<open>error.response['Error']['Message']\<close> (\<open>None\<close> when that key is absent).
  \<open>OtherError\<close> is any other exception the SDK client raises (parameter validation,
  connection failures): the handlers catch \<open>ClientError\<close> only.
\<close>

datatype exn =
    ClientError string string "string option"
  | TypeError
  | KeyError string
  | AttributeError
  | ValueError
  | OverflowError
  | OtherError string

datatype 'a outcome = Returned 'a | Raised exn

text \<open>
  Reasons handed to the framework. The two f-strings that format a number, a dict
  and a set are kept structured, since their rendering is the interpreter's.
\<close>

datatype msg =
    Text string
  | MaxRetriesReached int
  | MissingFields pyval "string list"

datatype signal = SUCCESS "msg option" | FAILED msg

datatype call =
    GetChangeToken
  | CreateRateBasedRule pydict
  | UpdateRateBasedRule pydict
  | DeleteRateBasedRule pydict
  | GetChangeTokenStatus string

text \<open>
  The module-level SDK client, as a parameter: each operation maps the service's
  state to a reply (or an exception) and the next state. Replies carry the fields the
  code reads: the change token, and for a create the rule id with the change token.
\<close>

record 'w client =
  get_change_token :: "'w \<Rightarrow> (exn + string) \<times> 'w"
  create_rate_based_rule :: "pydict \<Rightarrow> 'w \<Rightarrow> (exn + string \<times> string) \<times> 'w"
  update_rate_based_rule :: "pydict \<Rightarrow> 'w \<Rightarrow> (exn + string) \<times> 'w"
  delete_rate_based_rule :: "pydict \<Rightarrow> 'w \<Rightarrow> (exn + string) \<times> 'w"
  get_change_token_status :: "string \<Rightarrow> 'w \<Rightarrow> (exn + string) \<times> 'w"

text \<open>
  What a handler can read and change: the service, the request's properties, the
  identifier, and three logs (the \<open>success\<close>/\<open>fail\<close> signals given to the framework,
  the calls made to the service, the intervals slept), each in order.
\<close>

record 'w provider =
  service :: 'w
  properties :: pydict
  old_properties :: pydict
  physical_resource_id :: pyval
  signals :: "signal list"
  calls :: "call list"
  sleeps :: "int list"

definition success :: "msg option \<Rightarrow> 'w provider \<Rightarrow> 'w provider" where
  "success m s = s\<lparr>signals := signals s @ [SUCCESS m]\<rparr>"

definition fail :: "msg \<Rightarrow> 'w provider \<Rightarrow> 'w provider" where
  "fail m s = s\<lparr>signals := signals s @ [FAILED m]\<rparr>"

text \<open>A call to the service: it is logged, and the service moves to its next state.\<close>

definition called :: "call \<Rightarrow> 'w \<Rightarrow> 'w provider \<Rightarrow> 'w provider" where
  "called k w s = s\<lparr>service := w, calls := calls s @ [k]\<rparr>"

definition invoke :: "call \<Rightarrow> ('w \<Rightarrow> 'r \<times> 'w) \<Rightarrow> 'w provider \<Rightarrow> 'r \<times> 'w provider" where
  "invoke k f s = (case f (service s) of (r, w) \<Rightarrow> (r, called k w s))"

fun is_client_error :: "exn \<Rightarrow> bool" where
  "is_client_error (ClientError str code m) = True"
| "is_client_error e = False"

text \<open>
  \<open>time.sleep\<close> first converts the length to a signed 64-bit count of nanoseconds,
  which raises \<open>OverflowError\<close> beyond 9223372036 seconds either way, and then raises
  \<open>ValueError\<close> on a negative length.
\<close>

definition sleep_error :: "int \<Rightarrow> exn option" where
  "sleep_error interval =
     (if interval < - 9223372036 \<or> 9223372036 < interval then Some OverflowError
      else if interval < 0 then Some ValueError
      else None)"

definition sleep :: "int \<Rightarrow> 'w provider \<Rightarrow> (exn + unit) \<times> 'w provider" where
  "sleep interval s =
     (case sleep_error interval of
        Some e \<Rightarrow> (Inl e, s)
      | None \<Rightarrow> (Inr (), s\<lparr>sleeps := sleeps s @ [interval]\<rparr>))"

section \<open>The change-token waiter\<close>

text \<open>The \<open>except ClientError\<close> clause of \<open>wait_on_status\<close>: it falls off the end, so the call returns \<open>None\<close>.\<close>

fun wait_except :: "(bool \<times> msg) option outcome \<times> 'w provider \<Rightarrow> (bool \<times> msg) option outcome \<times> 'w provider" where
  "wait_except (Raised (ClientError str code m), s) =
     (Returned None, fail (Text str) (s\<lparr>physical_resource_id := PStr ''failed-to-create''\<rparr>))"
| "wait_except r = r"

text \<open>
  \<open>wait_on_status(change_token, current_retry, interval=30, max_interval=30,
  max_retries=15)\<close>. The recursive call passes \<open>change_token\<close>, \<open>current_retry\<close> and
  \<open>interval\<close> only, so the retry runs with the defaults of the other two. The whole
  body, the recursive call included, stands under the \<open>except\<close> clause. The
  interpreter's recursion limit is left out: the handlers start at retry 0, where
  the calls nest 16 deep at most.
\<close>

function wait_on_status ::
  "'w client \<Rightarrow> string \<Rightarrow> int \<Rightarrow> int \<Rightarrow> int \<Rightarrow> int \<Rightarrow> 'w provider
     \<Rightarrow> (bool \<times> msg) option outcome \<times> 'w provider" where
  "wait_on_status c change_token current_retry interval max_interval max_retries s =
     wait_except
       (case invoke (GetChangeTokenStatus change_token) (get_change_token_status c change_token) s of
          (Inl e, s1) \<Rightarrow> (Raised e, s1)
        | (Inr status, s1) \<Rightarrow>
            if status \<noteq> ''INSYNC'' then
              if current_retry \<ge> max_retries then
                (Returned (Some (False, MaxRetriesReached max_retries)), s1)
              else
                (case sleep interval s1 of
                   (Inl e, s2) \<Rightarrow> (Raised e, s2)
                 | (Inr u, s2) \<Rightarrow>
                     wait_on_status c change_token (current_retry + 1)
                       (min (interval + interval) max_interval) 30 15 s2)
            else (Returned (Some (True, Text '''')), s1))"
  by pat_completeness auto
termination
  by (relation "measure (\<lambda>(c, tok, cr, i, mi, mr, s). nat (15 - cr) + (if mr = 15 then 0 else 1))") auto

declare wait_on_status.simps [simp del]

section \<open>Operations on Python values\<close>

text \<open>
  \<open>==\<close> on JSON-like values: booleans compare with integers as 0 and 1, lists
  compare element by element, dicts compare regardless of key order.
\<close>

fun py_eq :: "pyval \<Rightarrow> pyval \<Rightarrow> bool" where
  "py_eq PNone PNone = True"
| "py_eq (PBool a) (PBool b) = (a = b)"
| "py_eq (PBool a) (PInt j) = ((if a then 1 else 0) = j)"
| "py_eq (PInt i) (PBool b) = (i = (if b then 1 else 0))"
| "py_eq (PInt i) (PInt j) = (i = j)"
| "py_eq (PStr s) (PStr t) = (s = t)"
| "py_eq (PList xs) (PList ys) = list_all2 py_eq xs ys"
| "py_eq (PDict d) (PDict e) =
     (length d = length e \<and>
      list_all (\<lambda>kv. case map_of e (fst kv) of None \<Rightarrow> False | Some v' \<Rightarrow> py_eq (snd kv) v') d)"
| "py_eq _ _ = False"

text \<open>\<open>for x in v\<close>: a dict yields its keys, a string its characters; other scalars are not iterable.\<close>

fun py_iter :: "pyval \<Rightarrow> exn + pyval list" where
  "py_iter (PList xs) = Inr xs"
| "py_iter (PDict d) = Inr (map (\<lambda>kv. PStr (fst kv)) d)"
| "py_iter (PStr s) = Inr (map (\<lambda>ch. PStr [ch]) s)"
| "py_iter _ = Inl TypeError"

text \<open>\<open>v[k]\<close> for a string key \<open>k\<close>: only a dict can be indexed by a string.\<close>

fun py_getitem :: "pyval \<Rightarrow> string \<Rightarrow> exn + pyval" where
  "py_getitem (PDict d) k = (case map_of d k of None \<Rightarrow> Inl (KeyError k) | Some v \<Rightarrow> Inr v)"
| "py_getitem _ k = Inl TypeError"

fun hashable :: "pyval \<Rightarrow> bool" where
  "hashable (PList xs) = False"
| "hashable (PDict d) = False"
| "hashable _ = True"

text \<open>\<open>set(v)\<close>, as the list of its elements: every element must be hashable.\<close>

definition py_set :: "pyval \<Rightarrow> exn + pyval list" where
  "py_set v =
     (case py_iter v of
        Inl e \<Rightarrow> Inl e
      | Inr xs \<Rightarrow> if list_all hashable xs then Inr xs else Inl TypeError)"

text \<open>
  \<open>container.pop(key, None)\<close>, giving the container afterwards. \<open>list.pop\<close> takes at
  most one argument, the other values have no \<open>pop\<close>, and a dict needs a hashable key.
\<close>

fun py_pop :: "pyval \<Rightarrow> pyval \<Rightarrow> exn + pyval" where
  "py_pop (PDict d) key =
     (if hashable key
      then Inr (PDict (case key of PStr k \<Rightarrow> filter (\<lambda>kv. fst kv \<noteq> k) d | _ \<Rightarrow> d))
      else Inl TypeError)"
| "py_pop (PList xs) key = Inl TypeError"
| "py_pop _ key = Inl AttributeError"

text \<open>\<open>d.pop(k, None)\<close> and \<open>d.update({k: v})\<close> on a dict with string keys.\<close>

definition dict_pop :: "pydict \<Rightarrow> string \<Rightarrow> pydict" where
  "dict_pop d k = filter (\<lambda>kv. fst kv \<noteq> k) d"

fun dict_update :: "pydict \<Rightarrow> string \<Rightarrow> pyval \<Rightarrow> pydict" where
  "dict_update [] k v = [(k, v)]"
| "dict_update (kv # d) k v = (if fst kv = k then (k, v) # d else kv # dict_update d k v)"

text \<open>\<open>needle in hay\<close> on strings.\<close>

primrec contains :: "string \<Rightarrow> string \<Rightarrow> bool" where
  "contains needle [] = (needle = [])"
| "contains needle (ch # hay) = (take (length needle) (ch # hay) = needle \<or> contains needle hay)"

section \<open>The predicate reconciler\<close>

text \<open>
  The nested \<open>find_old_predicate\<close>: both branches of the loop body return, so the
  scan ends at the first element; an empty collection falls off the loop (\<open>None\<close>).
\<close>

fun find_old_predicate_scan :: "pyval \<Rightarrow> pyval list \<Rightarrow> exn + pyval" where
  "find_old_predicate_scan new_pred [] = Inr PNone"
| "find_old_predicate_scan new_pred (old_pred # later) =
     (case py_getitem new_pred ''DataId'' of
        Inl e \<Rightarrow> Inl e
      | Inr a \<Rightarrow>
          (case py_getitem old_pred ''DataId'' of
             Inl e \<Rightarrow> Inl e
           | Inr b \<Rightarrow> if py_eq a b then Inr old_pred else Inr PNone))"

definition find_old_predicate :: "pyval \<Rightarrow> pyval \<Rightarrow> exn + pyval" where
  "find_old_predicate new_pred old_preds =
     (case py_iter old_preds of
        Inl e \<Rightarrow> Inl e
      | Inr olds \<Rightarrow> find_old_predicate_scan new_pred olds)"

definition required_fields :: "string list" where
  "required_fields = [''Negated'', ''Type'', ''DataId'']"

text \<open>\<open>set(required_fields) - set(kwargs)\<close>, listed in the order of \<open>required_fields\<close>.\<close>

definition missing_fields :: "pyval \<Rightarrow> exn + string list" where
  "missing_fields kwargs =
     (case py_set kwargs of
        Inl e \<Rightarrow> Inl e
      | Inr present \<Rightarrow> Inr (filter (\<lambda>f. PStr f \<notin> set present) required_fields))"

definition delete_entry :: "pyval \<Rightarrow> pyval" where
  "delete_entry p = PDict [(''Action'', PStr ''DELETE''), (''Predicate'', p)]"

definition insert_entry :: "pyval \<Rightarrow> pyval" where
  "insert_entry p = PDict [(''Action'', PStr ''INSERT''), (''Predicate'', p)]"

text \<open>
  Where the first part of \<open>update\<close> ends: with \<open>old_predicates\<close>, \<open>deletes\<close> and
  \<open>inserts\<close>; at the \<open>self.fail\<close> and \<open>return\<close> for a predicate with missing fields; or
  in an exception.
\<close>

datatype scan =
    Lists pyval "pyval list" "pyval list"
  | Invalid pyval "string list"
  | Crash exn

text \<open>The loop over \<open>new_predicates\<close>.\<close>

fun match_predicates :: "pyval list \<Rightarrow> pyval \<Rightarrow> pyval list \<Rightarrow> pyval list \<Rightarrow> scan" where
  "match_predicates [] old_predicates deletes inserts = Lists old_predicates deletes inserts"
| "match_predicates (new_predicate # rest) old_predicates deletes inserts =
     (case missing_fields new_predicate of
        Inl e \<Rightarrow> Crash e
      | Inr missing \<Rightarrow>
          if missing = [] then
            (case find_old_predicate new_predicate old_predicates of
               Inl e \<Rightarrow> Crash e
             | Inr old_predicate \<Rightarrow>
                 (case py_pop old_predicates old_predicate of
                    Inl e \<Rightarrow> Crash e
                  | Inr remaining \<Rightarrow>
                      if old_predicate \<noteq> PNone \<and> \<not> py_eq new_predicate old_predicate then
                        match_predicates rest remaining
                          (deletes @ [delete_entry old_predicate])
                          (inserts @ [insert_entry new_predicate])
                      else if old_predicate = PNone then
                        match_predicates rest remaining deletes
                          (inserts @ [insert_entry new_predicate])
                      else match_predicates rest remaining deletes inserts))
          else Invalid new_predicate missing)"

definition old_predicates_of :: "'w provider \<Rightarrow> pyval" where
  "old_predicates_of s =
     (case map_of (old_properties s) ''MatchPredicates'' of
        None \<Rightarrow> PDict []
      | Some v \<Rightarrow> v)"

text \<open>
  \<open>update\<close> up to the two printed lists: the matching loop unless \<open>remove_all\<close>,
  then one delete for every element left in \<open>old_predicates\<close>.
\<close>

definition reconcile :: "bool \<Rightarrow> 'w provider \<Rightarrow> scan" where
  "reconcile remove_all s =
     (case (if \<not> remove_all then
              (case map_of (properties s) ''Updates'' of
                 None \<Rightarrow> Crash (KeyError ''Updates'')
               | Some new_predicates \<Rightarrow>
                   (case py_iter new_predicates of
                      Inl e \<Rightarrow> Crash e
                    | Inr news \<Rightarrow> match_predicates news (old_predicates_of s) [] []))
            else Lists (old_predicates_of s) [] []) of
        Lists remaining deletes inserts \<Rightarrow>
          (case py_iter remaining of
             Inl e \<Rightarrow> Crash e
           | Inr olds \<Rightarrow> Lists remaining (deletes @ map delete_entry olds) inserts)
      | Invalid new_predicate missing \<Rightarrow> Invalid new_predicate missing
      | Crash e \<Rightarrow> Crash e)"

section \<open>The handlers\<close>

text \<open>
  Each handler is its \<open>try\<close> body under its \<open>except ClientError\<close> clause. After the
  wait every handler reads \<open>status['Success']\<close>, which on \<open>None\<close> is a \<open>TypeError\<close>.
  \<open>self.properties\<close> is \<open>self.request['ResourceProperties']\<close>, and \<open>self.old_properties\<close>
  is a dict, empty when the request has no old properties.
\<close>

text \<open>The keyword arguments of the three mutating calls, as the handlers build them.\<close>

definition create_kwargs :: "pydict \<Rightarrow> string \<Rightarrow> pydict" where
  "create_kwargs props token =
     dict_update (dict_pop (dict_pop props ''ServiceToken'') ''MatchPredicates'')
       ''ChangeToken'' (PStr token)"

definition update_kwargs :: "pyval \<Rightarrow> pyval \<Rightarrow> pyval list \<Rightarrow> pyval list \<Rightarrow> string \<Rightarrow> pydict" where
  "update_kwargs rule_id rate_limit deletes inserts token =
     dict_update
       (dict_update (dict_update [(''RuleId'', rule_id)] ''RateLimit'' rate_limit)
          ''Updates'' (PList [PList deletes, PList inserts]))
       ''ChangeToken'' (PStr token)"

definition delete_kwargs :: "pyval \<Rightarrow> string \<Rightarrow> pydict" where
  "delete_kwargs rule_id token = dict_update [(''RuleId'', rule_id)] ''ChangeToken'' (PStr token)"

fun update_except :: "unit outcome \<times> 'w provider \<Rightarrow> unit outcome \<times> 'w provider" where
  "update_except (Raised (ClientError str code m), s) = (Returned (), fail (Text str) s)"
| "update_except r = r"

definition update :: "'w client \<Rightarrow> bool \<Rightarrow> 'w provider \<Rightarrow> unit outcome \<times> 'w provider" where
  "update c remove_all s =
     (case reconcile remove_all s of
        Crash e \<Rightarrow> (Raised e, s)
      | Invalid new_predicate missing \<Rightarrow>
          (Returned (), fail (MissingFields new_predicate missing) s)
      | Lists remaining deletes inserts \<Rightarrow>
          (case map_of (properties s) ''RateLimit'' of
             None \<Rightarrow> (Raised (KeyError ''RateLimit''), s)
           | Some rate_limit \<Rightarrow>
               update_except
                 (case invoke GetChangeToken (get_change_token c) s of
                    (Inl e, s1) \<Rightarrow> (Raised e, s1)
                  | (Inr token, s1) \<Rightarrow>
                      (let updates =
                             update_kwargs (physical_resource_id s) rate_limit deletes inserts token
                       in case invoke (UpdateRateBasedRule updates)
                                 (update_rate_based_rule c updates) s1 of
                            (Inl e, s2) \<Rightarrow> (Raised e, s2)
                          | (Inr change_token, s2) \<Rightarrow>
                              (case wait_on_status c change_token 0 30 30 15 s2 of
                                 (Raised e, s3) \<Rightarrow> (Raised e, s3)
                               | (Returned None, s3) \<Rightarrow> (Raised TypeError, s3)
                               | (Returned (Some (ok, reason)), s3) \<Rightarrow>
                                   if ok then
                                     (Returned (), success (Some (Text ''Update is done.'')) s3)
                                   else (Returned (), fail reason s3))))))"

fun create_except :: "unit outcome \<times> 'w provider \<Rightarrow> unit outcome \<times> 'w provider" where
  "create_except (Raised (ClientError str code m), s) =
     (Returned (), fail (Text str) (s\<lparr>physical_resource_id := PStr ''failed-to-create''\<rparr>))"
| "create_except r = r"

definition create :: "'w client \<Rightarrow> 'w provider \<Rightarrow> unit outcome \<times> 'w provider" where
  "create c s =
     create_except
       (case invoke GetChangeToken (get_change_token c) s of
           (Inl e, s1) \<Rightarrow> (Raised e, s1)
         | (Inr token, s1) \<Rightarrow>
             (let kwargs = create_kwargs (properties s) token
              in case invoke (CreateRateBasedRule kwargs) (create_rate_based_rule c kwargs) s1 of
                   (Inl e, s2) \<Rightarrow> (Raised e, s2)
                 | (Inr (rule_id, change_token), s2) \<Rightarrow>
                     (case wait_on_status c change_token 0 30 30 15
                             (s2\<lparr>physical_resource_id := PStr rule_id\<rparr>) of
                        (Raised e, s3) \<Rightarrow> (Raised e, s3)
                      | (Returned None, s3) \<Rightarrow> (Raised TypeError, s3)
                      | (Returned (Some (ok, reason)), s3) \<Rightarrow>
                          if ok then
                            if map_of (properties s3) ''Updates'' \<noteq> None then
                              (case update c False s3 of
                                 (Raised e, s4) \<Rightarrow> (Raised e, s4)
                               | (Returned u, s4) \<Rightarrow>
                                   if ok then
                                     (Returned (),
                                      success (Some (Text ''Create and update are done.'')) s4)
                                   else (Returned (), s4))
                            else (Returned (), success (Some (Text ''Create is done.'')) s3)
                          else (Returned (), fail reason s3))))"

fun delete_except :: "unit outcome \<times> 'w provider \<Rightarrow> unit outcome \<times> 'w provider" where
  "delete_except (Raised (ClientError str code m), s) =
     (case m of
        None \<Rightarrow> (Raised (KeyError ''Message''), s)
      | Some message \<Rightarrow>
          if contains ''WAFNonexistentItemException'' message
          then (Returned (), success None s)
          else (Returned (), fail (Text str) s))"
| "delete_except r = r"

definition delete :: "'w client \<Rightarrow> 'w provider \<Rightarrow> unit outcome \<times> 'w provider" where
  "delete c s =
     (case update c True s of
        (Raised e, s0) \<Rightarrow> (Raised e, s0)
      | (Returned u, s0) \<Rightarrow>
          delete_except
            (case invoke GetChangeToken (get_change_token c) s0 of
               (Inl e, s1) \<Rightarrow> (Raised e, s1)
             | (Inr token, s1) \<Rightarrow>
                 (let delete_request = delete_kwargs (physical_resource_id s0) token
                  in case invoke (DeleteRateBasedRule delete_request)
                            (delete_rate_based_rule c delete_request) s1 of
                       (Inl e, s2) \<Rightarrow> (Raised e, s2)
                     | (Inr change_token, s2) \<Rightarrow>
                         (case wait_on_status c change_token 0 30 30 15 s2 of
                            (Raised e, s3) \<Rightarrow> (Raised e, s3)
                          | (Returned None, s3) \<Rightarrow> (Raised TypeError, s3)
                          | (Returned (Some (ok, reason)), s3) \<Rightarrow>
                              if ok then
                                (Returned (), success (Some (Text ''Delete is done.'')) s3)
                              else (Returned (), fail reason s3)))))"

section \<open>Concrete requests and services\<close>

text \<open>A predicate record with its three fields.\<close>

definition predicate :: "bool \<Rightarrow> string \<Rightarrow> string \<Rightarrow> pyval" where
  "predicate negated type data_id =
     PDict [(''Negated'', PBool negated), (''Type'', PStr type), (''DataId'', PStr data_id)]"

text \<open>
  The service's error for a rule that does not exist, as the SDK shapes it: the
  exception's name is the error code, and the message is a sentence.
\<close>

definition nonexistent_text :: "string \<Rightarrow> string" where
  "nonexistent_text operation =
     ''An error occurred (WAFNonexistentItemException) when calling the '' @ operation @
     '' operation: The referenced item does not exist.''"

definition nonexistent_item :: "string \<Rightarrow> exn" where
  "nonexistent_item operation =
     ClientError (nonexistent_text operation) ''WAFNonexistentItemException''
       (Some ''The referenced item does not exist.'')"

text \<open>Two more errors of the service, and a connection failure, which is no \<open>ClientError\<close>.\<close>

definition limit_exceeded :: exn where
  "limit_exceeded =
     ClientError ''An error occurred (WAFLimitsExceededException)'' ''WAFLimitsExceededException''
       (Some ''limit exceeded'')"

definition throttled :: exn where
  "throttled =
     ClientError ''An error occurred (ThrottlingException)'' ''ThrottlingException''
       (Some ''Rate exceeded'')"

definition unreachable :: exn where
  "unreachable = OtherError ''Could not connect to the endpoint URL''"

text \<open>
  A service whose state is the list of answers it still has for status queries;
  when the list is used up the status stays \<open>PENDING\<close>. Every other call succeeds.
\<close>

definition scripted_client :: "(exn + string) list client" where
  "scripted_client = \<lparr>
     get_change_token = (\<lambda>w. (Inr ''token'', w)),
     create_rate_based_rule = (\<lambda>kwargs w. (Inr (''rule-1'', ''change-1''), w)),
     update_rate_based_rule = (\<lambda>kwargs w. (Inr ''change-2'', w)),
     delete_rate_based_rule = (\<lambda>kwargs w. (Inr ''change-3'', w)),
     get_change_token_status =
       (\<lambda>change_token w. case w of [] \<Rightarrow> (Inr ''PENDING'', []) | r # rs \<Rightarrow> (r, rs)) \<rparr>"

text \<open>The same service when the rule is gone: update and delete report that it does not exist.\<close>

definition absent_rule_client :: "(exn + string) list client" where
  "absent_rule_client = scripted_client\<lparr>
     update_rate_based_rule := (\<lambda>kwargs w. (Inl (nonexistent_item ''UpdateRateBasedRule''), w)),
     delete_rate_based_rule := (\<lambda>kwargs w. (Inl (nonexistent_item ''DeleteRateBasedRule''), w)) \<rparr>"

text \<open>The same service, refusing every create.\<close>

definition refusing_client :: "(exn + string) list client" where
  "refusing_client = scripted_client\<lparr>
     create_rate_based_rule := (\<lambda>kwargs w. (Inl limit_exceeded, w)) \<rparr>"

text \<open>The same service, unable to hand out a change token.\<close>

definition tokenless_client :: "(exn + string) list client" where
  "tokenless_client = scripted_client\<lparr>
     get_change_token := (\<lambda>w. (Inl throttled, w)) \<rparr>"

text \<open>A request before any handler has run.\<close>

definition request :: "pydict \<Rightarrow> pydict \<Rightarrow> 'w \<Rightarrow> 'w provider" where
  "request props old_props w =
     \<lparr> service = w, properties = props, old_properties = old_props,
       physical_resource_id = PNone, signals = [], calls = [], sleeps = [] \<rparr>"

section \<open>Facts about the waiter\<close>

lemma sleep_error_None: "sleep_error i = None \<longleftrightarrow> 0 \<le> i \<and> i \<le> 9223372036"
  by (simp add: sleep_error_def)

lemma sleep_error_not_client: "sleep_error i = Some e \<Longrightarrow> \<not> is_client_error e"
  by (auto simp: sleep_error_def split: if_splits)

lemma wait_except_no_client_error: "fst (wait_except r) \<noteq> Raised (ClientError a k b)"
  by (cases r rule: wait_except.cases) auto

lemma wait_except_id: "(\<And>a k b. fst r \<noteq> Raised (ClientError a k b)) \<Longrightarrow> wait_except r = r"
  by (cases r rule: wait_except.cases) auto

lemma wait_except_other: "\<not> is_client_error e \<Longrightarrow> wait_except (Raised e, s) = (Raised e, s)"
  by (cases e) simp_all

lemma wait_never_client_error:
  "fst (wait_on_status c tok cr i mi mr s) \<noteq> Raised (ClientError a k b)"
  by (subst wait_on_status.simps) (rule wait_except_no_client_error)

lemma wait_except_wait:
  "wait_except (wait_on_status c tok cr i mi mr s) = wait_on_status c tok cr i mi mr s"
  by (rule wait_except_id) (rule wait_never_client_error)

lemma wait_client_error:
  assumes "get_change_token_status c tok (service s) = (Inl (ClientError a k b), w)"
  shows "wait_on_status c tok cr i mi mr s =
     (Returned None,
      fail (Text a)
        ((called (GetChangeTokenStatus tok) w s)\<lparr>physical_resource_id := PStr ''failed-to-create''\<rparr>))"
  using assms by (simp add: wait_on_status.simps invoke_def)

lemma wait_other_error:
  assumes "get_change_token_status c tok (service s) = (Inl e, w)" "\<not> is_client_error e"
  shows "wait_on_status c tok cr i mi mr s = (Raised e, called (GetChangeTokenStatus tok) w s)"
  using assms by (simp add: wait_on_status.simps invoke_def wait_except_other)

lemma wait_insync:
  assumes "get_change_token_status c tok (service s) = (Inr ''INSYNC'', w)"
  shows "wait_on_status c tok cr i mi mr s =
     (Returned (Some (True, Text [])), called (GetChangeTokenStatus tok) w s)"
  using assms by (simp add: wait_on_status.simps invoke_def)

lemma wait_exhausted:
  assumes "get_change_token_status c tok (service s) = (Inr st, w)" "st \<noteq> ''INSYNC''" "mr \<le> cr"
  shows "wait_on_status c tok cr i mi mr s =
     (Returned (Some (False, MaxRetriesReached mr)), called (GetChangeTokenStatus tok) w s)"
  using assms by (simp add: wait_on_status.simps invoke_def)

lemma wait_sleep_fails:
  assumes "get_change_token_status c tok (service s) = (Inr st, w)" "st \<noteq> ''INSYNC''"
    "cr < mr" "sleep_error i = Some e"
  shows "wait_on_status c tok cr i mi mr s = (Raised e, called (GetChangeTokenStatus tok) w s)"
  using assms sleep_error_not_client[of i e]
  by (simp add: wait_on_status.simps invoke_def sleep_def wait_except_other)

lemma wait_retry:
  assumes "get_change_token_status c tok (service s) = (Inr st, w)" "st \<noteq> ''INSYNC''"
    "cr < mr" "sleep_error i = None"
  shows "wait_on_status c tok cr i mi mr s =
     wait_on_status c tok (cr + 1) (min (i + i) mi) 30 15
       ((called (GetChangeTokenStatus tok) w s)\<lparr>sleeps := sleeps s @ [i]\<rparr>)"
  using assms
  by (subst wait_on_status.simps) (simp add: invoke_def sleep_def called_def wait_except_wait)

text \<open>Induction over the retries, and the six ways one call of the waiter can go.\<close>

lemma wait_induct [case_names call]:
  fixes P :: "'w client \<Rightarrow> string \<Rightarrow> int \<Rightarrow> int \<Rightarrow> int \<Rightarrow> int \<Rightarrow> 'w provider \<Rightarrow> bool"
  assumes step: "\<And>c tok cr i mi mr s.
     (\<And>st w. get_change_token_status c tok (service s) = (Inr st, w) \<Longrightarrow> st \<noteq> ''INSYNC'' \<Longrightarrow>
        cr < mr \<Longrightarrow> sleep_error i = None \<Longrightarrow>
        P c tok (cr + 1) (min (i + i) mi) 30 15
          ((called (GetChangeTokenStatus tok) w s)\<lparr>sleeps := sleeps s @ [i]\<rparr>)) \<Longrightarrow>
     P c tok cr i mi mr s"
  shows "P c tok cr i mi mr s"
proof (induction c tok cr i mi mr s rule: wait_on_status.induct)
  case (1 c tok cr i mi mr s)
  show ?case
  proof (rule step)
    fix st w
    assume poll: "get_change_token_status c tok (service s) = (Inr st, w)"
      and ns: "st \<noteq> ''INSYNC''" and budget: "cr < mr" and slept: "sleep_error i = None"
    have a: "(Inr st, called (GetChangeTokenStatus tok) w s) =
        invoke (GetChangeTokenStatus tok) (get_change_token_status c tok) s"
      using poll by (simp add: invoke_def)
    have b: "(Inr (), (called (GetChangeTokenStatus tok) w s)\<lparr>sleeps := sleeps s @ [i]\<rparr>) =
        sleep i (called (GetChangeTokenStatus tok) w s)"
      using slept by (simp add: sleep_def called_def)
    from budget have c: "\<not> mr \<le> cr" by simp
    show "P c tok (cr + 1) (min (i + i) mi) 30 15
          ((called (GetChangeTokenStatus tok) w s)\<lparr>sleeps := sleeps s @ [i]\<rparr>)"
      by (rule "1.IH"[OF a refl ns c b refl])
  qed
qed

lemma wait_cases [case_names client_error other_error insync exhausted sleep_fails retry]:
  obtains
    (client_error) a k b w where "get_change_token_status c tok (service s) = (Inl (ClientError a k b), w)"
      "wait_on_status c tok cr i mi mr s =
         (Returned None,
          fail (Text a)
            ((called (GetChangeTokenStatus tok) w s)\<lparr>physical_resource_id := PStr ''failed-to-create''\<rparr>))"
  | (other_error) e w where "get_change_token_status c tok (service s) = (Inl e, w)" "\<not> is_client_error e"
      "wait_on_status c tok cr i mi mr s = (Raised e, called (GetChangeTokenStatus tok) w s)"
  | (insync) w where "get_change_token_status c tok (service s) = (Inr ''INSYNC'', w)"
      "wait_on_status c tok cr i mi mr s =
         (Returned (Some (True, Text [])), called (GetChangeTokenStatus tok) w s)"
  | (exhausted) st w where "get_change_token_status c tok (service s) = (Inr st, w)" "st \<noteq> ''INSYNC''"
      "mr \<le> cr"
      "wait_on_status c tok cr i mi mr s =
         (Returned (Some (False, MaxRetriesReached mr)), called (GetChangeTokenStatus tok) w s)"
  | (sleep_fails) st w e where "get_change_token_status c tok (service s) = (Inr st, w)"
      "st \<noteq> ''INSYNC''" "cr < mr" "sleep_error i = Some e"
      "wait_on_status c tok cr i mi mr s = (Raised e, called (GetChangeTokenStatus tok) w s)"
  | (retry) st w where "get_change_token_status c tok (service s) = (Inr st, w)" "st \<noteq> ''INSYNC''"
      "cr < mr" "sleep_error i = None"
      "wait_on_status c tok cr i mi mr s =
         wait_on_status c tok (cr + 1) (min (i + i) mi) 30 15
           ((called (GetChangeTokenStatus tok) w s)\<lparr>sleeps := sleeps s @ [i]\<rparr>)"
proof -
  obtain r w where poll: "get_change_token_status c tok (service s) = (r, w)"
    by (cases "get_change_token_status c tok (service s)")
  show ?thesis
  proof (cases r)
    case (Inl e)
    show ?thesis
    proof (cases "is_client_error e")
      case True
      then obtain a k b where "e = ClientError a k b" by (cases e) auto
      with poll Inl show ?thesis by (intro client_error[of a k b w]) (simp_all add: wait_client_error)
    next
      case False
      with poll Inl show ?thesis by (intro other_error[of e w]) (simp_all add: wait_other_error)
    qed
  next
    case (Inr st)
    show ?thesis
    proof (cases "st = ''INSYNC''")
      case True
      with poll Inr show ?thesis by (intro insync[of w]) (simp_all add: wait_insync)
    next
      case ns: False
      show ?thesis
      proof (cases "mr \<le> cr")
        case True
        with poll Inr ns show ?thesis by (intro exhausted[of st w]) (simp_all add: wait_exhausted)
      next
        case False
        then have budget: "cr < mr" by simp
        show ?thesis
        proof (cases "sleep_error i")
          case None
          with poll Inr ns budget show ?thesis by (intro retry[of st w]) (simp_all add: wait_retry)
        next
          case (Some e)
          with poll Inr ns budget show ?thesis
            by (intro sleep_fails[of st w e]) (simp_all add: wait_sleep_fails)
        qed
      qed
    qed
  qed
qed

lemma wait_sleeps_extend:
  "\<exists>rest. sleeps (snd (wait_on_status c tok cr i mi mr s)) = sleeps s @ rest"
proof (induction c tok cr i mi mr s rule: wait_induct)
  case (call c tok cr i mi mr s)
  show ?case
  proof (cases rule: wait_cases[where c=c and tok=tok and s=s and cr=cr and i=i and mi=mi and mr=mr])
    case (retry st w)
    from call[OF retry(1-4)] show ?thesis
      unfolding retry(5) by (auto simp: called_def)
  qed (simp_all add: called_def fail_def)
qed

text \<open>With the defaults, which every handler uses, every sleep of a call is 30.\<close>

lemma wait_sleeps_default:
  "i = 30 \<Longrightarrow> mi = 30 \<Longrightarrow>
   \<exists>n. sleeps (snd (wait_on_status c tok cr i mi mr s)) = sleeps s @ replicate n 30"
proof (induction c tok cr i mi mr s rule: wait_induct)
  case (call c tok cr i mi mr s)
  show ?case
  proof (cases rule: wait_cases[where c=c and tok=tok and s=s and cr=cr and i=i and mi=mi and mr=mr])
    case (retry st w)
    from call.IH[OF retry(1-4)] call.prems
    obtain n where "sleeps (snd (wait_on_status c tok (cr + 1) (min (i + i) mi) 30 15
           ((called (GetChangeTokenStatus tok) w s)\<lparr>sleeps := sleeps s @ [i]\<rparr>))) =
        (sleeps s @ [i]) @ replicate n 30"
      by (auto simp: called_def)
    with call.prems have "sleeps (snd (wait_on_status c tok cr i mi mr s)) = sleeps s @ replicate (Suc n) 30"
      unfolding retry(5) by simp
    then show ?thesis by blast
  next
    case (client_error a k b w)
    have "sleeps (snd (wait_on_status c tok cr i mi mr s)) = sleeps s @ replicate 0 30"
      unfolding client_error(2) by (simp add: called_def fail_def)
    then show ?thesis by blast
  next
    case (other_error e w)
    have "sleeps (snd (wait_on_status c tok cr i mi mr s)) = sleeps s @ replicate 0 30"
      unfolding other_error(3) by (simp add: called_def)
    then show ?thesis by blast
  next
    case (insync w)
    have "sleeps (snd (wait_on_status c tok cr i mi mr s)) = sleeps s @ replicate 0 30"
      unfolding insync(2) by (simp add: called_def)
    then show ?thesis by blast
  next
    case (exhausted st w)
    have "sleeps (snd (wait_on_status c tok cr i mi mr s)) = sleeps s @ replicate 0 30"
      unfolding exhausted(4) by (simp add: called_def)
    then show ?thesis by blast
  next
    case (sleep_fails st w e)
    have "sleeps (snd (wait_on_status c tok cr i mi mr s)) = sleeps s @ replicate 0 30"
      unfolding sleep_fails(5) by (simp add: called_def)
    then show ?thesis by blast
  qed
qed

lemma wait_properties:
  "properties (snd (wait_on_status c tok cr i mi mr s)) = properties s"
proof (induction c tok cr i mi mr s rule: wait_induct)
  case (call c tok cr i mi mr s)
  show ?case
  proof (cases rule: wait_cases[where c=c and tok=tok and s=s and cr=cr and i=i and mi=mi and mr=mr])
    case (retry st w)
    from call[OF retry(1-4)] show ?thesis
      unfolding retry(5) by (simp add: called_def)
  qed (simp_all add: called_def fail_def)
qed

text \<open>
  The retry budget in general, for a status that never becomes \<open>INSYNC\<close>: whatever
  positive \<open>max_retries\<close> the first call is given, the status is checked 16 times and
  the reason names the default budget.
\<close>

lemma wait_default_budget:
  "(\<forall>t w. \<exists>st w'. get_change_token_status c t w = (Inr st, w') \<and> st \<noteq> ''INSYNC'') \<Longrightarrow>
   mi = 30 \<Longrightarrow> mr = 15 \<Longrightarrow> sleep_error i = None \<Longrightarrow> cr \<le> 15 \<Longrightarrow>
     fst (wait_on_status c tok cr i mi mr s) = Returned (Some (False, MaxRetriesReached 15)) \<and>
     length (calls (snd (wait_on_status c tok cr i mi mr s))) = length (calls s) + nat (16 - cr)"
proof (induction c tok cr i mi mr s rule: wait_induct)
  case (call c tok cr i mi mr s)
  from call.prems(1) obtain st w
    where poll: "get_change_token_status c tok (service s) = (Inr st, w)" "st \<noteq> ''INSYNC''"
    by blast
  show ?case
  proof (cases "mr \<le> cr")
    case True
    with call.prems have "cr = 15" by simp
    with wait_exhausted[OF poll True] call.prems show ?thesis
      by (simp add: called_def)
  next
    case False
    then have budget: "cr < mr" by simp
    have step: "wait_on_status c tok cr i mi mr s =
        wait_on_status c tok (cr + 1) (min (i + i) mi) 30 15
          ((called (GetChangeTokenStatus tok) w s)\<lparr>sleeps := sleeps s @ [i]\<rparr>)"
      using poll budget call.prems(4) by (rule wait_retry)
    have "sleep_error (min (i + i) mi) = None" "cr + 1 \<le> 15"
      using call.prems budget by (simp_all add: sleep_error_None)
    from call.IH[OF poll budget call.prems(4) call.prems(1) refl refl this]
    show ?thesis
      unfolding step using budget call.prems(3) by (simp add: called_def nat_diff_distrib)
  qed
qed

lemma wait_budget_is_default:
  assumes "\<forall>t w. \<exists>st w'. get_change_token_status c t w = (Inr st, w') \<and> st \<noteq> ''INSYNC''"
    and "0 < mr" and "sleep_error i = None" and "sleep_error (min (i + i) mi) = None"
  shows "fst (wait_on_status c tok 0 i mi mr s) = Returned (Some (False, MaxRetriesReached 15)) \<and>
         length (calls (snd (wait_on_status c tok 0 i mi mr s))) = length (calls s) + 16"
proof -
  from assms(1) obtain st w
    where poll: "get_change_token_status c tok (service s) = (Inr st, w)" "st \<noteq> ''INSYNC''"
    by blast
  have step: "wait_on_status c tok 0 i mi mr s =
        wait_on_status c tok (0 + 1) (min (i + i) mi) 30 15
          ((called (GetChangeTokenStatus tok) w s)\<lparr>sleeps := sleeps s @ [i]\<rparr>)"
    using poll assms(2,3) by (rule wait_retry)
  from wait_default_budget[OF assms(1) refl refl assms(4), of "0 + 1" tok]
  show ?thesis unfolding step by (simp add: called_def)
qed

section \<open>The claims about the waiter\<close>

text \<open>
  Claim C1: the waiter succeeds exactly when the status it queried is \<open>INSYNC\<close>, and
  for every \<open>max_retries\<close> a status that never becomes \<open>INSYNC\<close> ends in a failure after
  exactly \<open>max_retries + 1\<close> status checks.

  The second half does not hold of the code: the retry is called without
  \<open>max_retries\<close>, so from the second check on the budget is the default 15. Called
  with \<open>max_retries = 3\<close> and a status that stays \<open>PENDING\<close>, the waiter checks 16
  times, sleeps 15 times, and its reason names 15 retries.
\<close>

theorem wait_on_status_ignores_max_retries:
  "wait_on_status scripted_client ''change-1'' 0 30 30 3 (request [] [] []) =
     (Returned (Some (False, MaxRetriesReached 15)),
      (request [] [] [])\<lparr>calls := replicate 16 (GetChangeTokenStatus ''change-1''),
        sleeps := replicate 15 30\<rparr>)"
  by (simp add: wait_on_status.simps scripted_client_def request_def invoke_def called_def sleep_def
      sleep_error_def numeral_eq_Suc)

text \<open>
  Claim C2: for \<open>interval < max_interval\<close> the next retry uses
  \<open>min(2 * interval, max_interval)\<close>, and once the interval has reached
  \<open>max_interval\<close> it stays constant across all further retries.

  The code keeps to this for one retry only: the retry is called without
  \<open>max_interval\<close>, so from then on the cap is the default 30. Called with interval 20
  and \<open>max_interval\<close> 100, the waiter sleeps 20, then 40, and then 30 where the claim
  has \<open>min(2 * 40, 100) = 80\<close>; it stays at 30 and never comes to 100.
\<close>

theorem wait_on_status_forgets_max_interval:
  "sleeps (snd (wait_on_status scripted_client ''change-1'' 0 20 100 15
      (request [] []
         [Inr ''PENDING'', Inr ''PENDING'', Inr ''PENDING'', Inr ''PENDING'', Inr ''INSYNC'']))) =
     [20, 40, 30, 30] \<and>
   (40 :: int) < 100 \<and> min (2 * 40) (100 :: int) = 80"
  by (simp add: wait_on_status.simps scripted_client_def request_def invoke_def called_def sleep_def
      sleep_error_def)

section \<open>The claims about the reconciler\<close>

text \<open>
  Claim C3: for every requested predicate and every non-empty collection of previous
  predicates, the matching scan looks at the first previous predicate only: it
  returns that predicate when its \<open>DataId\<close> equals the requested one's, and no match
  otherwise, whatever comes later in the collection.

  Here the collection is anything whose iteration starts with \<open>old_pred\<close>, and both
  predicates carry a \<open>DataId\<close>; equality is Python's \<open>==\<close>.
\<close>

theorem find_old_predicate_first_only:
  assumes "py_iter old_preds = Inr (old_pred # later)"
    and "py_getitem new_pred ''DataId'' = Inr a" and "py_getitem old_pred ''DataId'' = Inr b"
  shows "find_old_predicate new_pred old_preds =
           (if py_eq a b then Inr old_pred else Inr PNone) \<and>
         find_old_predicate new_pred old_preds = find_old_predicate new_pred (PList [old_pred])"
  using assms by (simp add: find_old_predicate_def)

text \<open>
  A requested predicate with \<open>DataId\<close> b finds no match in a collection whose second
  predicate has \<open>DataId\<close> b, and the first predicate is returned when it matches.
\<close>

theorem find_old_predicate_first_only_witness:
  "find_old_predicate (predicate False ''IPMatch'' ''b'')
     (PList [predicate False ''IPMatch'' ''a'', predicate False ''IPMatch'' ''b'']) = Inr PNone \<and>
   find_old_predicate (predicate False ''IPMatch'' ''a'')
     (PList [predicate True ''IPMatch'' ''a'', predicate False ''IPMatch'' ''b'']) =
     Inr (predicate True ''IPMatch'' ''a'')"
  using find_old_predicate_first_only[of
      "PList [predicate False ''IPMatch'' ''a'', predicate False ''IPMatch'' ''b'']"
      "predicate False ''IPMatch'' ''a''" "[predicate False ''IPMatch'' ''b'']"
      "predicate False ''IPMatch'' ''b''" "PStr ''b''" "PStr ''a''"]
    find_old_predicate_first_only[of
      "PList [predicate True ''IPMatch'' ''a'', predicate False ''IPMatch'' ''b'']"
      "predicate True ''IPMatch'' ''a''" "[predicate False ''IPMatch'' ''b'']"
      "predicate False ''IPMatch'' ''a''" "PStr ''a''" "PStr ''a''"]
  by (simp add: predicate_def)

text \<open>
  Claim C4: whenever some requested predicate lacks one of \<open>Negated\<close>, \<open>Type\<close>,
  \<open>DataId\<close>, the update fails at once with a description of the missing fields, emits
  no lists and calls the service not at all.

  The code reaches the incomplete predicate only through the complete ones before
  it, and each of those runs \<open>old_predicates.pop(old_predicate, None)\<close>. With the
  previous predicates given as a list that call raises \<open>TypeError\<close>: the update ends
  in the exception, with no \<open>fail\<close> signal (and no call to the service).
\<close>

theorem update_crashes_before_invalid_predicate:
  "update scripted_client False
     (request [(''RateLimit'', PInt 2000),
               (''Updates'', PList [predicate False ''IPMatch'' ''a'',
                                    PDict [(''Negated'', PBool False), (''DataId'', PStr ''b'')]])]
              [(''MatchPredicates'', PList [predicate False ''IPMatch'' ''a''])] []) =
   (Raised TypeError,
    request [(''RateLimit'', PInt 2000),
               (''Updates'', PList [predicate False ''IPMatch'' ''a'',
                                    PDict [(''Negated'', PBool False), (''DataId'', PStr ''b'')]])]
              [(''MatchPredicates'', PList [predicate False ''IPMatch'' ''a''])] [])"
  by (simp add: update_def reconcile_def old_predicates_of_def request_def predicate_def
      missing_fields_def py_set_def required_fields_def find_old_predicate_def)

text \<open>
  Where the request has no previous predicates the scan does reach the first
  incomplete predicate: the update signals the missing fields and calls nothing.
\<close>

lemma match_predicates_no_previous:
  assumes "\<forall>p \<in> set complete. missing_fields p = Inr []"
    and "missing_fields bad = Inr missing" and "missing \<noteq> []"
  shows "match_predicates (complete @ bad # later) (PDict []) deletes inserts = Invalid bad missing"
  using assms
  by (induction complete arbitrary: deletes inserts) (simp_all add: find_old_predicate_def)

lemma update_invalid_predicate_no_previous:
  assumes "map_of (properties s) ''Updates'' = Some (PList (complete @ bad # later))"
    and "map_of (old_properties s) ''MatchPredicates'' = None"
    and "\<forall>p \<in> set complete. missing_fields p = Inr []"
    and "missing_fields bad = Inr missing" and "missing \<noteq> []"
  shows "update c False s = (Returned (), fail (MissingFields bad missing) s)"
  using assms
  by (simp add: update_def reconcile_def old_predicates_of_def match_predicates_no_previous)

text \<open>
  Claim C5: with full removal requested, the reconciler produces an empty insert
  list and exactly one \<open>DELETE\<close> entry for each previous predicate, and does no
  matching: the requested properties play no part.

  Each entry is the record with \<open>Action\<close> \<open>DELETE\<close> and the previous predicate under
  \<open>Predicate\<close>, in the order the previous collection yields them.
\<close>

theorem reconcile_remove_all:
  assumes "py_iter (old_predicates_of s) = Inr olds"
  shows "reconcile True s =
           Lists (old_predicates_of s)
             (map (\<lambda>p. PDict [(''Action'', PStr ''DELETE''), (''Predicate'', p)]) olds) [] \<and>
         reconcile True (s\<lparr>properties := props\<rparr>) = reconcile True s"
proof -
  have "delete_entry = (\<lambda>p. PDict [(''Action'', PStr ''DELETE''), (''Predicate'', p)])"
    by (rule ext) (simp add: delete_entry_def)
  with assms show ?thesis
    by (simp add: reconcile_def old_predicates_of_def)
qed

theorem reconcile_remove_all_witness:
  "reconcile True
     (request [(''RateLimit'', PInt 2000)]
        [(''MatchPredicates'', PList [predicate False ''IPMatch'' ''a'', predicate True ''GeoMatch'' ''b''])]
        ([] :: (exn + string) list)) =
   Lists (PList [predicate False ''IPMatch'' ''a'', predicate True ''GeoMatch'' ''b''])
     [PDict [(''Action'', PStr ''DELETE''),
             (''Predicate'', PDict [(''Negated'', PBool False), (''Type'', PStr ''IPMatch''),
                                    (''DataId'', PStr ''a'')])],
      PDict [(''Action'', PStr ''DELETE''),
             (''Predicate'', PDict [(''Negated'', PBool True), (''Type'', PStr ''GeoMatch''),
                                    (''DataId'', PStr ''b'')])]]
     []"
  using reconcile_remove_all[of "request [(''RateLimit'', PInt 2000)]
        [(''MatchPredicates'', PList [predicate False ''IPMatch'' ''a'', predicate True ''GeoMatch'' ''b''])]
        ([] :: (exn + string) list)" "[predicate False ''IPMatch'' ''a'', predicate True ''GeoMatch'' ''b'']"]
  by (simp add: old_predicates_of_def request_def predicate_def)

text \<open>
  Claim C6: the payload sent to the service carries as \<open>Updates\<close> one sequence, the
  delete entries followed by the insert entries, next to the rate limit and a fresh
  change token.

  The code sends \<open>[deletes, inserts]\<close>, a list of the two lists. For a request with one
  new predicate and no previous ones, \<open>Updates\<close> is \<open>[[], [insert]]\<close> and not \<open>[insert]\<close>.
\<close>

theorem update_payload_nests_lists:
  "calls (snd (update scripted_client False
     (request [(''RateLimit'', PInt 2000), (''Updates'', PList [predicate False ''IPMatch'' ''a''])]
        [] [Inr ''INSYNC'']))) =
   [GetChangeToken,
    UpdateRateBasedRule
      [(''RuleId'', PNone), (''RateLimit'', PInt 2000),
       (''Updates'', PList [PList [], PList [insert_entry (predicate False ''IPMatch'' ''a'')]]),
       (''ChangeToken'', PStr ''token'')],
    GetChangeTokenStatus ''change-2''] \<and>
   PList [PList [], PList [insert_entry (predicate False ''IPMatch'' ''a'')]] \<noteq>
     PList ([] @ [insert_entry (predicate False ''IPMatch'' ''a'')])"
  by (simp add: update_def reconcile_def old_predicates_of_def request_def predicate_def
      missing_fields_def py_set_def required_fields_def find_old_predicate_def update_kwargs_def
      wait_on_status.simps scripted_client_def invoke_def called_def success_def insert_entry_def)

section \<open>Facts about the handlers\<close>

text \<open>No operation on Python values raises a \<open>ClientError\<close>, and \<open>update\<close> lets none out.\<close>

lemma py_iter_not_client: "py_iter v = Inl e \<Longrightarrow> \<not> is_client_error e"
  by (cases v) auto

lemma py_getitem_not_client: "py_getitem v k = Inl e \<Longrightarrow> \<not> is_client_error e"
  by (cases v) (auto split: option.splits)

lemma py_pop_not_client: "py_pop v key = Inl e \<Longrightarrow> \<not> is_client_error e"
  by (cases v) (auto split: if_splits)

lemma missing_fields_not_client: "missing_fields v = Inl e \<Longrightarrow> \<not> is_client_error e"
  by (auto simp: missing_fields_def py_set_def split: sum.splits if_splits dest: py_iter_not_client)

lemma find_old_predicate_not_client: "find_old_predicate n olds = Inl e \<Longrightarrow> \<not> is_client_error e"
proof -
  have scan: "find_old_predicate_scan n xs = Inl e \<Longrightarrow> \<not> is_client_error e" for xs
    by (cases xs) (auto split: sum.splits if_splits dest: py_getitem_not_client)
  show "find_old_predicate n olds = Inl e \<Longrightarrow> \<not> is_client_error e"
    by (auto simp: find_old_predicate_def split: sum.splits dest: py_iter_not_client scan)
qed

lemma match_predicates_not_client:
  "match_predicates news olds deletes inserts = Crash e \<Longrightarrow> \<not> is_client_error e"
proof (induction news arbitrary: olds deletes inserts)
  case Nil
  then show ?case by simp
next
  case (Cons n news)
  from Cons.prems show ?case
    by (auto split: sum.splits if_splits
        dest: missing_fields_not_client find_old_predicate_not_client py_pop_not_client Cons.IH)
qed

lemma reconcile_not_client: "reconcile remove_all s = Crash e \<Longrightarrow> \<not> is_client_error e"
  by (auto simp: reconcile_def split: if_splits option.splits sum.splits scan.splits
      dest: py_iter_not_client match_predicates_not_client)

lemma update_except_not_client: "fst (update_except r) = Raised e \<Longrightarrow> \<not> is_client_error e"
  by (cases r rule: update_except.cases) auto

lemma update_not_client: "fst (update c remove_all s) = Raised e \<Longrightarrow> \<not> is_client_error e"
proof (cases "reconcile remove_all s")
  case (Lists remaining deletes inserts)
  assume raised: "fst (update c remove_all s) = Raised e"
  show ?thesis
  proof (cases "map_of (properties s) ''RateLimit''")
    case None
    with Lists raised show ?thesis by (auto simp: update_def)
  next
    case (Some rate_limit)
    with Lists raised show ?thesis
      by (auto simp: update_def dest: update_except_not_client)
  qed
next
  case (Invalid p missing)
  assume "fst (update c remove_all s) = Raised e"
  with Invalid show ?thesis by (simp add: update_def)
next
  case (Crash x)
  assume "fst (update c remove_all s) = Raised e"
  with Crash show ?thesis by (auto simp: update_def dest: reconcile_not_client)
qed

lemma create_except_other: "\<not> is_client_error e \<Longrightarrow> create_except (Raised e, s) = (Raised e, s)"
  by (cases e) simp_all

section \<open>The claims about the handlers\<close>

text \<open>
  Claim C7: when the service's delete call reports that the rule does not exist, the
  delete operation reports success.

  The service reports it as the error \<open>WAFNonexistentItemException\<close>, which the SDK
  puts in the error's code. The code looks for that name in the error's message,
  which reads \<open>The referenced item does not exist.\<close>, and so signals a failure with
  the error's text: here both the full-removal update and the delete call meet the
  missing rule, and the last signal is the delete's failure.
\<close>

theorem delete_absent_rule_signals_failure:
  "fst (delete absent_rule_client
      (request [(''Name'', PStr ''R1''), (''RateLimit'', PInt 2000)] [] [])) = Returned () \<and>
   signals (snd (delete absent_rule_client
      (request [(''Name'', PStr ''R1''), (''RateLimit'', PInt 2000)] [] []))) =
     [FAILED (Text (nonexistent_text ''UpdateRateBasedRule'')),
      FAILED (Text (nonexistent_text ''DeleteRateBasedRule''))] \<and>
   calls (snd (delete absent_rule_client
      (request [(''Name'', PStr ''R1''), (''RateLimit'', PInt 2000)] [] []))) =
     [GetChangeToken,
      UpdateRateBasedRule [(''RuleId'', PNone), (''RateLimit'', PInt 2000),
                           (''Updates'', PList [PList [], PList []]),
                           (''ChangeToken'', PStr ''token'')],
      GetChangeToken,
      DeleteRateBasedRule [(''RuleId'', PNone), (''ChangeToken'', PStr ''token'')]]"
  by (simp add: delete_def update_def reconcile_def old_predicates_of_def request_def
      absent_rule_client_def scripted_client_def nonexistent_item_def invoke_def called_def
      fail_def update_kwargs_def delete_kwargs_def)

text \<open>The delete does report success when the error's message carries the exception's name.\<close>

lemma delete_succeeds_on_named_message:
  assumes "update c True s = (Returned (), s0)"
    and "get_change_token c (service s0) = (Inr token, w1)"
    and "delete_rate_based_rule c (delete_kwargs (physical_resource_id s0) token) w1 =
           (Inl (ClientError str code (Some message)), w2)"
    and "contains ''WAFNonexistentItemException'' message"
  shows "delete c s =
           (Returned (),
            success None
              (called (DeleteRateBasedRule (delete_kwargs (physical_resource_id s0) token)) w2
                 (called GetChangeToken w1 s0)))"
  using assms by (simp add: delete_def invoke_def called_def success_def)

text \<open>
  Claim C8: when the service raises an error during the create call, or a
  transport-level error occurs while querying the change-token status, the operation
  is reported as failed with the error's text and the physical resource id becomes
  \<open>failed-to-create\<close>.

  The handlers catch \<open>ClientError\<close> only. A status query that fails to reach the
  service raises another exception: the waiter lets it pass, with no \<open>fail\<close> signal
  and the id as it was.
\<close>

theorem status_query_transport_error_counterexample:
  "fst (wait_on_status scripted_client ''change-1'' 0 30 30 15 (request [] [] [Inl unreachable])) =
     Raised (OtherError ''Could not connect to the endpoint URL'') \<and>
   signals (snd (wait_on_status scripted_client ''change-1'' 0 30 30 15
     (request [] [] [Inl unreachable]))) = [] \<and>
   physical_resource_id (snd (wait_on_status scripted_client ''change-1'' 0 30 30 15
     (request [] [] [Inl unreachable]))) = PNone"
  by (simp add: wait_on_status.simps scripted_client_def request_def unreachable_def invoke_def
      called_def)

text \<open>
  Claim C8, amended: when the service's error is a \<open>ClientError\<close>, raised at the change
  token or at the create call of the create handler, or at a status query of the
  waiter, \<open>fail\<close> is called with the error's text and the physical resource id becomes
  \<open>failed-to-create\<close>. The last part is the create handler whose own wait meets such
  an error: it is left in that state, by the \<open>TypeError\<close> of the missing status record.
\<close>

theorem service_error_marks_failed_to_create:
  "(get_change_token c (service s) = (Inl (ClientError str code m), w1) \<longrightarrow>
      create c s =
        (Returned (),
         fail (Text str)
           ((called GetChangeToken w1 s)\<lparr>physical_resource_id := PStr ''failed-to-create''\<rparr>))) \<and>
   (get_change_token c (service s) = (Inr token, w1) \<and>
    create_rate_based_rule c (create_kwargs (properties s) token) w1 =
      (Inl (ClientError str code m), w2) \<longrightarrow>
      create c s =
        (Returned (),
         fail (Text str)
           ((called (CreateRateBasedRule (create_kwargs (properties s) token)) w2
               (called GetChangeToken w1 s))\<lparr>physical_resource_id := PStr ''failed-to-create''\<rparr>))) \<and>
   (get_change_token_status c tok (service s) = (Inl (ClientError str code m), w1) \<longrightarrow>
      wait_on_status c tok cr i mi mr s =
        (Returned None,
         fail (Text str)
           ((called (GetChangeTokenStatus tok) w1 s)\<lparr>physical_resource_id := PStr ''failed-to-create''\<rparr>))) \<and>
   (get_change_token c (service s) = (Inr token, w1) \<and>
    create_rate_based_rule c (create_kwargs (properties s) token) w1 = (Inr (rule_id, change_token), w2) \<and>
    get_change_token_status c change_token w2 = (Inl (ClientError str code m), w3) \<longrightarrow>
      create c s =
        (Raised TypeError,
         fail (Text str)
           ((called (GetChangeTokenStatus change_token) w3
               (called (CreateRateBasedRule (create_kwargs (properties s) token)) w2
                  (called GetChangeToken w1 s)))\<lparr>physical_resource_id := PStr ''failed-to-create''\<rparr>)))"
proof (intro conjI impI)
  assume "get_change_token c (service s) = (Inl (ClientError str code m), w1)"
  then show "create c s =
        (Returned (),
         fail (Text str)
           ((called GetChangeToken w1 s)\<lparr>physical_resource_id := PStr ''failed-to-create''\<rparr>))"
    by (simp add: create_def invoke_def)
next
  assume "get_change_token c (service s) = (Inr token, w1) \<and>
    create_rate_based_rule c (create_kwargs (properties s) token) w1 =
      (Inl (ClientError str code m), w2)"
  then show "create c s =
        (Returned (),
         fail (Text str)
           ((called (CreateRateBasedRule (create_kwargs (properties s) token)) w2
               (called GetChangeToken w1 s))\<lparr>physical_resource_id := PStr ''failed-to-create''\<rparr>))"
    by (simp add: create_def invoke_def Let_def called_def)
next
  assume "get_change_token_status c tok (service s) = (Inl (ClientError str code m), w1)"
  then show "wait_on_status c tok cr i mi mr s =
        (Returned None,
         fail (Text str)
           ((called (GetChangeTokenStatus tok) w1 s)\<lparr>physical_resource_id := PStr ''failed-to-create''\<rparr>))"
    by (rule wait_client_error)
next
  assume a: "get_change_token c (service s) = (Inr token, w1) \<and>
    create_rate_based_rule c (create_kwargs (properties s) token) w1 = (Inr (rule_id, change_token), w2) \<and>
    get_change_token_status c change_token w2 = (Inl (ClientError str code m), w3)"
  let ?s2 = "(called (CreateRateBasedRule (create_kwargs (properties s) token)) w2
               (called GetChangeToken w1 s))\<lparr>physical_resource_id := PStr rule_id\<rparr>"
  have "get_change_token_status c change_token (service ?s2) = (Inl (ClientError str code m), w3)"
    using a by (simp add: called_def)
  from wait_client_error[OF this, of 0 30 30 15] a
  show "create c s =
        (Raised TypeError,
         fail (Text str)
           ((called (GetChangeTokenStatus change_token) w3
               (called (CreateRateBasedRule (create_kwargs (properties s) token)) w2
                  (called GetChangeToken w1 s)))\<lparr>physical_resource_id := PStr ''failed-to-create''\<rparr>))"
    by (simp add: create_def invoke_def Let_def called_def fail_def)
qed

theorem service_error_marks_failed_to_create_witness:
  "create tokenless_client (request [(''Name'', PStr ''R1''), (''RateLimit'', PInt 2000)] [] []) =
     (Returned (),
      (request [(''Name'', PStr ''R1''), (''RateLimit'', PInt 2000)] [] [])
        \<lparr>physical_resource_id := PStr ''failed-to-create'',
         signals := [FAILED (Text ''An error occurred (ThrottlingException)'')],
         calls := [GetChangeToken]\<rparr>) \<and>
   create refusing_client (request [(''Name'', PStr ''R1''), (''RateLimit'', PInt 2000)] [] []) =
     (Returned (),
      (request [(''Name'', PStr ''R1''), (''RateLimit'', PInt 2000)] [] [])
        \<lparr>physical_resource_id := PStr ''failed-to-create'',
         signals := [FAILED (Text ''An error occurred (WAFLimitsExceededException)'')],
         calls := [GetChangeToken,
                   CreateRateBasedRule [(''Name'', PStr ''R1''), (''RateLimit'', PInt 2000),
                                        (''ChangeToken'', PStr ''token'')]]\<rparr>) \<and>
   wait_on_status scripted_client ''change-1'' 0 30 30 15 (request [] [] [Inl throttled]) =
     (Returned None,
      (request [] [] [])
        \<lparr>physical_resource_id := PStr ''failed-to-create'',
         signals := [FAILED (Text ''An error occurred (ThrottlingException)'')],
         calls := [GetChangeTokenStatus ''change-1'']\<rparr>) \<and>
   create scripted_client
       (request [(''Name'', PStr ''R1''), (''RateLimit'', PInt 2000)] [] [Inl throttled]) =
     (Raised TypeError,
      (request [(''Name'', PStr ''R1''), (''RateLimit'', PInt 2000)] [] [])
        \<lparr>physical_resource_id := PStr ''failed-to-create'',
         signals := [FAILED (Text ''An error occurred (ThrottlingException)'')],
         calls := [GetChangeToken,
                   CreateRateBasedRule [(''Name'', PStr ''R1''), (''RateLimit'', PInt 2000),
                                        (''ChangeToken'', PStr ''token'')],
                   GetChangeTokenStatus ''change-1'']\<rparr>)"
  using
    service_error_marks_failed_to_create[where c=tokenless_client
      and s="request [(''Name'', PStr ''R1''), (''RateLimit'', PInt 2000)] [] []"
      and str="''An error occurred (ThrottlingException)''" and code="''ThrottlingException''"
      and m="Some ''Rate exceeded''" and ?w1.0="[]"]
    service_error_marks_failed_to_create[where c=refusing_client
      and s="request [(''Name'', PStr ''R1''), (''RateLimit'', PInt 2000)] [] []"
      and str="''An error occurred (WAFLimitsExceededException)''"
      and code="''WAFLimitsExceededException''" and m="Some ''limit exceeded''"
      and token="''token''" and ?w1.0="[]" and ?w2.0="[]"]
    service_error_marks_failed_to_create[where c=scripted_client and tok="''change-1''"
      and s="request [] [] [Inl throttled]"
      and str="''An error occurred (ThrottlingException)''" and code="''ThrottlingException''"
      and m="Some ''Rate exceeded''" and ?w1.0="[]" and cr=0 and i=30 and mi=30 and mr=15]
    service_error_marks_failed_to_create[where c=scripted_client
      and s="request [(''Name'', PStr ''R1''), (''RateLimit'', PInt 2000)] [] [Inl throttled]"
      and str="''An error occurred (ThrottlingException)''" and code="''ThrottlingException''"
      and m="Some ''Rate exceeded''"
      and token="''token''" and ?w1.0="[Inl throttled]" and rule_id="''rule-1''"
      and change_token="''change-1''" and ?w2.0="[Inl throttled]" and ?w3.0="[]"]
  by (simp add: tokenless_client_def refusing_client_def scripted_client_def request_def
      throttled_def limit_exceeded_def create_kwargs_def dict_pop_def called_def fail_def)



text \<open>
  Claim C10: for a create request with an \<open>Updates\<close> key, once the create call and its
  wait have succeeded, the handler runs the nested update and then signals
  \<open>Create and update are done.\<close> on the strength of the create's own status,
  whether or not the nested update failed.

  A nested update that fails by an exception takes create with it. Here the status
  query of the nested update meets an error of the service: the update ends in the
  \<open>TypeError\<close> of the missing status record, and so does create, with the failure as
  its only signal.
\<close>

theorem create_nested_update_exception_counterexample:
  "fst (create scripted_client
      (request [(''Name'', PStr ''R1''), (''RateLimit'', PInt 2000),
                (''Updates'', PList [predicate False ''IPMatch'' ''a''])]
         [] [Inr ''INSYNC'', Inl throttled])) = Raised TypeError \<and>
   signals (snd (create scripted_client
      (request [(''Name'', PStr ''R1''), (''RateLimit'', PInt 2000),
                (''Updates'', PList [predicate False ''IPMatch'' ''a''])]
         [] [Inr ''INSYNC'', Inl throttled]))) =
     [FAILED (Text ''An error occurred (ThrottlingException)'')]"
  by (simp add: create_def update_def reconcile_def old_predicates_of_def request_def predicate_def
      missing_fields_def py_set_def required_fields_def find_old_predicate_def
      create_kwargs_def update_kwargs_def dict_pop_def throttled_def
      wait_on_status.simps scripted_client_def invoke_def called_def fail_def)

text \<open>
  Claim C10, amended: for a create request with an \<open>Updates\<close> key, once the create call
  and its wait have succeeded, the handler runs the nested update. When the nested
  update returns, whatever it signalled, create signals
  \<open>Create and update are done.\<close> after it, on the strength of the create's own status.
  When the nested update raises an exception, create ends in the same exception and
  in the state the update left, signalling nothing more.
\<close>

theorem create_reports_success_after_nested_update:
  assumes "get_change_token c (service s) = (Inr token, w1)"
    and "create_rate_based_rule c (create_kwargs (properties s) token) w1 = (Inr (rule_id, change_token), w2)"
    and "wait_on_status c change_token 0 30 30 15
           ((called (CreateRateBasedRule (create_kwargs (properties s) token)) w2
               (called GetChangeToken w1 s))\<lparr>physical_resource_id := PStr rule_id\<rparr>) =
         (Returned (Some (True, reason)), s3)"
    and "map_of (properties s) ''Updates'' \<noteq> None"
  shows "(update c False s3 = (Returned (), s4) \<longrightarrow>
            create c s = (Returned (), success (Some (Text ''Create and update are done.'')) s4) \<and>
            signals (snd (create c s)) =
              signals s4 @ [SUCCESS (Some (Text ''Create and update are done.''))]) \<and>
         (update c False s3 = (Raised e, s4) \<longrightarrow> create c s = (Raised e, s4))"
proof -
  let ?s2 = "(called (CreateRateBasedRule (create_kwargs (properties s) token)) w2
               (called GetChangeToken w1 s))\<lparr>physical_resource_id := PStr rule_id\<rparr>"
  have "properties s3 = properties ?s2"
    using wait_properties[of c change_token 0 30 30 15 ?s2] assms(3) by simp
  then have updates: "map_of (properties s3) ''Updates'' \<noteq> None"
    using assms(4) by (simp add: called_def)
  have returned: "create c s = (Returned (), success (Some (Text ''Create and update are done.'')) s4) \<and>
            signals (snd (create c s)) =
              signals s4 @ [SUCCESS (Some (Text ''Create and update are done.''))]"
    if "update c False s3 = (Returned (), s4)"
    using that updates assms(1,2,3) by (simp add: create_def invoke_def success_def Let_def called_def)
  have raised: "create c s = (Raised e, s4)" if r: "update c False s3 = (Raised e, s4)"
  proof -
    from r have "\<not> is_client_error e"
      using update_not_client[of c False s3 e] by simp
    then show ?thesis
      using r updates assms(1,2,3)
      by (simp add: create_def invoke_def Let_def called_def create_except_other)
  qed
  from returned raised show ?thesis by blast
qed

text \<open>
  A create whose nested update fails on an incomplete predicate and returns: the
  failure is signalled first, and the success after it. And a create whose nested
  update raises \<open>TypeError\<close> on a list of previous predicates: no signal at all.
\<close>

theorem create_reports_success_after_nested_update_witness:
  "signals (snd (create scripted_client
      (request [(''Name'', PStr ''R1''), (''RateLimit'', PInt 2000),
                (''Updates'', PList [PDict [(''Negated'', PBool False), (''DataId'', PStr ''b'')]])]
         [] [Inr ''INSYNC'']))) =
     [FAILED (MissingFields (PDict [(''Negated'', PBool False), (''DataId'', PStr ''b'')]) [''Type'']),
      SUCCESS (Some (Text ''Create and update are done.''))] \<and>
   create scripted_client
      (request [(''Name'', PStr ''R1''), (''RateLimit'', PInt 2000),
                (''Updates'', PList [predicate False ''IPMatch'' ''a''])]
         [(''MatchPredicates'', PList [predicate False ''IPMatch'' ''a''])] [Inr ''INSYNC'']) =
     (Raised TypeError,
      (request [(''Name'', PStr ''R1''), (''RateLimit'', PInt 2000),
                (''Updates'', PList [predicate False ''IPMatch'' ''a''])]
         [(''MatchPredicates'', PList [predicate False ''IPMatch'' ''a''])] [])
        \<lparr>physical_resource_id := PStr ''rule-1'',
         calls := [GetChangeToken,
               CreateRateBasedRule [(''Name'', PStr ''R1''), (''RateLimit'', PInt 2000),
                (''Updates'', PList [predicate False ''IPMatch'' ''a'']),
                (''ChangeToken'', PStr ''token'')],
               GetChangeTokenStatus ''change-1'']\<rparr>)"
  using create_reports_success_after_nested_update[where c=scripted_client
      and s="request [(''Name'', PStr ''R1''), (''RateLimit'', PInt 2000),
                (''Updates'', PList [PDict [(''Negated'', PBool False), (''DataId'', PStr ''b'')]])]
         [] [Inr ''INSYNC'']"
      and token="''token''" and ?w1.0="[Inr ''INSYNC'']" and rule_id="''rule-1''"
      and change_token="''change-1''" and ?w2.0="[Inr ''INSYNC'']" and reason="Text []"
      and ?s3.0="(request [(''Name'', PStr ''R1''), (''RateLimit'', PInt 2000),
                (''Updates'', PList [PDict [(''Negated'', PBool False), (''DataId'', PStr ''b'')]])]
         [] [])\<lparr>physical_resource_id := PStr ''rule-1'',
            calls := [GetChangeToken,
               CreateRateBasedRule [(''Name'', PStr ''R1''), (''RateLimit'', PInt 2000),
                (''Updates'', PList [PDict [(''Negated'', PBool False), (''DataId'', PStr ''b'')]]),
                (''ChangeToken'', PStr ''token'')],
               GetChangeTokenStatus ''change-1'']\<rparr>"
      and ?s4.0="(request [(''Name'', PStr ''R1''), (''RateLimit'', PInt 2000),
                (''Updates'', PList [PDict [(''Negated'', PBool False), (''DataId'', PStr ''b'')]])]
         [] [])\<lparr>physical_resource_id := PStr ''rule-1'',
            signals := [FAILED (MissingFields (PDict [(''Negated'', PBool False), (''DataId'', PStr ''b'')]) [''Type''])],
            calls := [GetChangeToken,
               CreateRateBasedRule [(''Name'', PStr ''R1''), (''RateLimit'', PInt 2000),
                (''Updates'', PList [PDict [(''Negated'', PBool False), (''DataId'', PStr ''b'')]]),
                (''ChangeToken'', PStr ''token'')],
               GetChangeTokenStatus ''change-1'']\<rparr>"]
    create_reports_success_after_nested_update[where c=scripted_client
      and s="request [(''Name'', PStr ''R1''), (''RateLimit'', PInt 2000),
                (''Updates'', PList [predicate False ''IPMatch'' ''a''])]
         [(''MatchPredicates'', PList [predicate False ''IPMatch'' ''a''])] [Inr ''INSYNC'']"
      and token="''token''" and ?w1.0="[Inr ''INSYNC'']" and rule_id="''rule-1''"
      and change_token="''change-1''" and ?w2.0="[Inr ''INSYNC'']" and reason="Text []"
      and e=TypeError
      and ?s3.0="(request [(''Name'', PStr ''R1''), (''RateLimit'', PInt 2000),
                (''Updates'', PList [predicate False ''IPMatch'' ''a''])]
         [(''MatchPredicates'', PList [predicate False ''IPMatch'' ''a''])] [])
        \<lparr>physical_resource_id := PStr ''rule-1'',
         calls := [GetChangeToken,
               CreateRateBasedRule [(''Name'', PStr ''R1''), (''RateLimit'', PInt 2000),
                (''Updates'', PList [predicate False ''IPMatch'' ''a'']),
                (''ChangeToken'', PStr ''token'')],
               GetChangeTokenStatus ''change-1'']\<rparr>"
      and ?s4.0="(request [(''Name'', PStr ''R1''), (''RateLimit'', PInt 2000),
                (''Updates'', PList [predicate False ''IPMatch'' ''a''])]
         [(''MatchPredicates'', PList [predicate False ''IPMatch'' ''a''])] [])
        \<lparr>physical_resource_id := PStr ''rule-1'',
         calls := [GetChangeToken,
               CreateRateBasedRule [(''Name'', PStr ''R1''), (''RateLimit'', PInt 2000),
                (''Updates'', PList [predicate False ''IPMatch'' ''a'']),
                (''ChangeToken'', PStr ''token'')],
               GetChangeTokenStatus ''change-1'']\<rparr>"]
  by (simp add: scripted_client_def request_def predicate_def create_kwargs_def dict_pop_def
      called_def fail_def wait_on_status.simps invoke_def update_def reconcile_def
      old_predicates_of_def missing_fields_def py_set_def required_fields_def
      find_old_predicate_def success_def)

end
